theory Spec2Isabelle
  imports Main
begin

section \<open>The Lessons block tool (src/index.js)\<close>

text \<open>
  The class \<^verbatim>\<open>Lessons\<close> of \<^verbatim>\<open>src/index.js\<close> is embedded method by method.
  JavaScript is untyped, so the values the methods receive are modelled by a datatype of
  JavaScript values; every \<^verbatim>\<open>TypeError\<close> the source can throw is a branch \<open>Inl TypeError\<close>
  of the model; the mutations of \<^verbatim>\<open>this\<close> are explicit state passing.
\<close>

subsection \<open>JavaScript values\<close>

text \<open>
  Numbers are the integral number values and \<^verbatim>\<open>NaN\<close> (a level is documented as a number
  from 1 to 6). Fractions, infinities and integers of magnitude \<open>10\<^sup>2\<^sup>1\<close> and more, which
  \<^verbatim>\<open>ToString\<close> prints in exponent notation, are outside the model. Objects are plain objects:
  an association list of own properties, the first binding of a key being the one read.
  Strings are lists of code units below 256.
\<close>

datatype error = TypeError

datatype jsnum = NaN | Finite int

datatype jsval =
    JUndefined
  | JNull
  | JBool bool
  | JNum jsnum
  | JStr string
  | JObj "(string \<times> jsval) list"

text \<open>Sequencing of computations that may throw.\<close>

definition bindE :: "error + 'a \<Rightarrow> ('a \<Rightarrow> error + 'b) \<Rightarrow> error + 'b" where
  "bindE m f = (case m of Inl e \<Rightarrow> Inl e | Inr x \<Rightarrow> f x)"

text \<open>The \<^verbatim>\<open>typeof\<close> operator: \<^verbatim>\<open>typeof null\<close> is \<^verbatim>\<open>"object"\<close>.\<close>

fun typeof :: "jsval \<Rightarrow> string" where
  "typeof JUndefined = ''undefined''"
| "typeof JNull = ''object''"
| "typeof (JBool b) = ''boolean''"
| "typeof (JNum n) = ''number''"
| "typeof (JStr s) = ''string''"
| "typeof (JObj fs) = ''object''"

text \<open>
  Reading the property \<^verbatim>\<open>text\<close> or \<^verbatim>\<open>level\<close> of a value: a \<^verbatim>\<open>TypeError\<close> on
  \<^verbatim>\<open>undefined\<close> and \<^verbatim>\<open>null\<close>, \<^verbatim>\<open>undefined\<close> on a primitive (its wrapper has neither
  property) and on an object without the key.
\<close>

fun get_prop :: "jsval \<Rightarrow> string \<Rightarrow> error + jsval" where
  "get_prop JUndefined k = Inl TypeError"
| "get_prop JNull k = Inl TypeError"
| "get_prop (JObj fs) k = Inr (case map_of fs k of None \<Rightarrow> JUndefined | Some v \<Rightarrow> v)"
| "get_prop v k = Inr JUndefined"

text \<open>\<^verbatim>\<open>ToBoolean\<close>, and the operator \<^verbatim>\<open>a || b\<close> on values already computed.\<close>

fun truthy :: "jsval \<Rightarrow> bool" where
  "truthy JUndefined = False"
| "truthy JNull = False"
| "truthy (JBool b) = b"
| "truthy (JNum NaN) = False"
| "truthy (JNum (Finite n)) = (n \<noteq> 0)"
| "truthy (JStr s) = (s \<noteq> [])"
| "truthy (JObj fs) = True"

definition js_or :: "jsval \<Rightarrow> jsval \<Rightarrow> jsval" where
  "js_or a b = (if truthy a then a else b)"

text \<open>\<^verbatim>\<open>ToString\<close>: an integer prints as its decimal numeral.\<close>

definition digit_char :: "nat \<Rightarrow> char" where
  "digit_char d = char_of (48 + d)"

fun nat_digits :: "nat \<Rightarrow> string" where
  "nat_digits n =
     (if n < 10 then [digit_char n] else nat_digits (n div 10) @ [digit_char (n mod 10)])"

declare nat_digits.simps [simp del]

definition int_string :: "int \<Rightarrow> string" where
  "int_string i = (if i < 0 then CHR ''-'' # nat_digits (nat (- i)) else nat_digits (nat i))"

fun ToString :: "jsval \<Rightarrow> string" where
  "ToString JUndefined = ''undefined''"
| "ToString JNull = ''null''"
| "ToString (JBool b) = (if b then ''true'' else ''false'')"
| "ToString (JNum NaN) = ''NaN''"
| "ToString (JNum (Finite n)) = int_string n"
| "ToString (JStr s) = s"
| "ToString (JObj fs) = ''[object Object]''"

text \<open>
  White space and line terminators, as \<^verbatim>\<open>String.prototype.trim\<close> and \<^verbatim>\<open>parseInt\<close> skip
  them: TAB, LF, VT, FF, CR, SP and NBSP.
\<close>

definition is_space :: "char \<Rightarrow> bool" where
  "is_space c = (of_char c \<in> {9::nat, 10, 11, 12, 13, 32, 160})"

definition trim :: "string \<Rightarrow> string" where
  "trim s = rev (dropWhile is_space (rev (dropWhile is_space s)))"

text \<open>
  \<^verbatim>\<open>parseInt(v)\<close> with no radix: \<^verbatim>\<open>ToString\<close>, leading white space skipped, an optional
  sign, the prefix \<^verbatim>\<open>0x\<close> or \<^verbatim>\<open>0X\<close> selecting radix 16, then the longest run of digits of the
  radix; \<^verbatim>\<open>NaN\<close> when that run is empty.
\<close>

definition digit_of :: "char \<Rightarrow> nat" where
  "digit_of c =
     (let n = (of_char c :: nat) in
      if 48 \<le> n \<and> n \<le> 57 then n - 48
      else if 97 \<le> n \<and> n \<le> 122 then n - 87
      else if 65 \<le> n \<and> n \<le> 90 then n - 55
      else 36)"

definition parse_digits :: "nat \<Rightarrow> int \<Rightarrow> string \<Rightarrow> jsnum" where
  "parse_digits R sign s =
     (let z = takeWhile (\<lambda>c. digit_of c < R) s in
      if z = [] then NaN
      else Finite (sign * int (foldl (\<lambda>a c. a * R + digit_of c) 0 z)))"

fun strip_prefix :: "int \<Rightarrow> string \<Rightarrow> jsnum" where
  "strip_prefix sign (c0 # c1 # s) =
     (if c0 = CHR ''0'' \<and> (c1 = CHR ''x'' \<or> c1 = CHR ''X'') then parse_digits 16 sign s
      else parse_digits 10 sign (c0 # c1 # s))"
| "strip_prefix sign s = parse_digits 10 sign s"

fun parse_sign :: "string \<Rightarrow> jsnum" where
  "parse_sign [] = NaN"
| "parse_sign (c # s) =
     (if c = CHR ''-'' then strip_prefix (- 1) s
      else if c = CHR ''+'' then strip_prefix 1 s
      else strip_prefix 1 (c # s))"

definition parseInt :: "jsval \<Rightarrow> jsnum" where
  "parseInt v = parse_sign (dropWhile is_space (ToString v))"

text \<open>
  \<^verbatim>\<open>Array.prototype.reduce\<close> without an initial value: a \<^verbatim>\<open>TypeError\<close> on the empty array,
  otherwise a left fold that starts from the first element.
\<close>

fun reduce :: "('a \<Rightarrow> 'a \<Rightarrow> 'a) \<Rightarrow> 'a list \<Rightarrow> error + 'a" where
  "reduce f [] = Inl TypeError"
| "reduce f (x # xs) = Inr (foldl f x xs)"

subsection \<open>Data of the tool\<close>

text \<open>
  \<^verbatim>\<open>LessonData\<close> is the record the tool stores in \<^verbatim>\<open>this._data\<close>: its \<^verbatim>\<open>text\<close> is whatever
  value \<^verbatim>\<open>data.text || ""\<close> yields, its \<^verbatim>\<open>level\<close> always an integer (the result of
  \<^verbatim>\<open>parseInt\<close> when truthy, else the number of a level). \<^verbatim>\<open>LessonConfig\<close> is the config the
  editor passes, each property optional.
\<close>

record LessonData =
  data_text :: jsval
  data_level :: int

record LessonConfig =
  cfg_placeholder :: "string option"
  cfg_levels :: "int list option"
  cfg_defaultLevel :: "int option"

record level =
  number :: int
  tag :: string
  svg :: string

text \<open>
  A DOM element, as far as the tool reads and writes it. \<open>innerHTML\<close> is the string a read of
  \<^verbatim>\<open>innerHTML\<close> returns: the serialisation of the element's content. \<open>parentNode\<close> is the
  identifier of the parent, \<open>None\<close> for \<^verbatim>\<open>null\<close> (an element not in the DOM).
\<close>

record element =
  tagName :: string
  innerHTML :: string
  classList :: "string list"
  dataset_placeholder :: "string option"
  contentEditable :: string
  parentNode :: "nat option"

text \<open>
  Assigning a string to \<^verbatim>\<open>innerHTML\<close> makes the element parse it as a fragment; a later read
  returns the serialisation of what was parsed, which need not be the string assigned (a bare
  \<^verbatim>\<open>&\<close> reads back as \<^verbatim>\<open>&amp;\<close>, an unclosed tag reads back closed). The parser belongs to
  the browser, not to the tool: the function \<open>html\<close>, from the tag of the element and the
  string assigned to the string read back, is a parameter of every method that assigns.
\<close>

definition set_innerHTML :: "(string \<Rightarrow> string \<Rightarrow> string) \<Rightarrow> element \<Rightarrow> string \<Rightarrow> element" where
  "set_innerHTML html e s = e\<lparr>innerHTML := html (tagName e) s\<rparr>"

text \<open>The services of the editor the tool calls, and the style names it keeps.\<close>

record editor_api =
  styles_block :: string
  i18n_t :: "string \<Rightarrow> string"

record css =
  block :: string
  wrapper :: string

text \<open>
  The instance. \<open>popups\<close> counts the dialogs \<^verbatim>\<open>createPopUp\<close> has appended to the document
  body; the handlers of their buttons are not modelled.
\<close>

record Lessons =
  api :: editor_api
  readOnly :: bool
  priv_CSS :: css
  priv_settings :: LessonConfig
  priv_data :: LessonData
  priv_element :: "element option"
  popups :: nat


definition createElement :: "string \<Rightarrow> element" where
  "createElement t =
     \<lparr>tagName = t, innerHTML = '''', classList = [], dataset_placeholder = None,
      contentEditable = ''inherit'', parentNode = None\<rparr>"

subsection \<open>Levels\<close>

text \<open>
  The getters \<^verbatim>\<open>levels\<close> and \<^verbatim>\<open>defaultLevel\<close> read \<^verbatim>\<open>this._settings\<close> only, and so does
  \<^verbatim>\<open>normalizeData\<close>, which the constructor calls before \<^verbatim>\<open>this._data\<close> exists: they take
  the settings. \<^verbatim>\<open>find\<close> returns \<^verbatim>\<open>undefined\<close> (\<open>None\<close>) when nothing matches, and
  \<^verbatim>\<open>this.levels[0]\<close> is \<^verbatim>\<open>undefined\<close> on the empty array. The \<^verbatim>\<open>console.warn\<close> of
  \<^verbatim>\<open>defaultLevel\<close> changes no value and is left out.
\<close>

definition icon :: string where
  "icon = ''<svg xmlns=\"http://www.w3.org/2000/svg\" width=\"24\" height=\"24\" viewBox=\"0 0 24 24\" fill=\"none\" stroke=\"#000000\" stroke-width=\"2\" stroke-linecap=\"round\" stroke-linejoin=\"round\"><polyline points=\"4 7 4 4 20 4 20 7\"></polyline><line x1=\"9\" y1=\"20\" x2=\"15\" y2=\"20\"></line><line x1=\"12\" y1=\"4\" x2=\"12\" y2=\"20\"></line></svg>''"

definition availableLevels :: "level list" where
  "availableLevels = [\<lparr>number = 2, tag = ''H2'', svg = icon\<rparr>]"

definition levels :: "LessonConfig \<Rightarrow> level list" where
  "levels settings =
     (case cfg_levels settings of
        Some ls \<Rightarrow> filter (\<lambda>l. number l \<in> set ls) availableLevels
      | None \<Rightarrow> availableLevels)"

definition first_level :: "LessonConfig \<Rightarrow> level option" where
  "first_level settings = (case levels settings of [] \<Rightarrow> None | l # ls \<Rightarrow> Some l)"

definition defaultLevel :: "LessonConfig \<Rightarrow> level option" where
  "defaultLevel settings =
     (case cfg_defaultLevel settings of
        None \<Rightarrow> first_level settings
      | Some n \<Rightarrow>
          if n \<noteq> 0 then
            (case List.find (\<lambda>levelItem. number levelItem = n) (levels settings) of
               Some userSpecified \<Rightarrow> Some userSpecified
             | None \<Rightarrow> first_level settings)
          else first_level settings)"

definition currentLevel :: "Lessons \<Rightarrow> level option" where
  "currentLevel this =
     (case List.find (\<lambda>levelItem. number levelItem = data_level (priv_data this))
             (levels (priv_settings this)) of
        Some l \<Rightarrow> Some l
      | None \<Rightarrow> defaultLevel (priv_settings this))"

text \<open>Reading \<^verbatim>\<open>.number\<close> or \<^verbatim>\<open>.tag\<close> of a level that is \<^verbatim>\<open>undefined\<close> throws.\<close>

definition deref :: "level option \<Rightarrow> error + level" where
  "deref l = (case l of None \<Rightarrow> Inl TypeError | Some x \<Rightarrow> Inr x)"

subsection \<open>The methods\<close>

definition normalizeData :: "LessonConfig \<Rightarrow> jsval \<Rightarrow> error + LessonData" where
  "normalizeData settings data0 =
     (let data = (if typeof data0 \<noteq> ''object'' then JObj [] else data0) in
      bindE (get_prop data ''text'') (\<lambda>t.
      bindE (get_prop data ''level'') (\<lambda>l.
        case parseInt l of
          Finite n \<Rightarrow>
            if n \<noteq> 0 then Inr \<lparr>data_text = js_or t (JStr ''''), data_level = n\<rparr>
            else bindE (deref (defaultLevel settings)) (\<lambda>d.
                   Inr \<lparr>data_text = js_or t (JStr ''''), data_level = number d\<rparr>)
        | NaN \<Rightarrow>
            bindE (deref (defaultLevel settings)) (\<lambda>d.
              Inr \<lparr>data_text = js_or t (JStr ''''), data_level = number d\<rparr>))))"

definition constructor :: "jsval \<Rightarrow> LessonConfig \<Rightarrow> editor_api \<Rightarrow> bool \<Rightarrow> error + Lessons" where
  "constructor data config a ro =
     bindE (normalizeData config data) (\<lambda>d.
       Inr \<lparr>api = a, readOnly = ro,
            priv_CSS = \<lparr>block = styles_block a, wrapper = ''ce-lesson''\<rparr>,
            priv_settings = config, priv_data = d, priv_element = None, popups = 0\<rparr>)"

definition createPopUp :: "Lessons \<Rightarrow> Lessons" where
  "createPopUp this = this\<lparr>popups := popups this + 1\<rparr>"

text \<open>
  \<^verbatim>\<open>getTag\<close> assigns \<^verbatim>\<open>innerHTML\<close> first and sets the class, the placeholder and
  \<^verbatim>\<open>contentEditable\<close> afterwards, as the source does.
\<close>

definition getTag :: "(string \<Rightarrow> string \<Rightarrow> string) \<Rightarrow> Lessons \<Rightarrow> error + (element \<times> Lessons)" where
  "getTag html this =
     (if \<not> truthy (data_text (priv_data this)) then
        Inr (set_innerHTML html (createElement ''DIV'') '''', createPopUp this)
      else
        bindE (deref (currentLevel this)) (\<lambda>l.
          Inr ((set_innerHTML html (createElement (tag l))
                  (ToString (js_or (data_text (priv_data this)) (JStr ''''))))
                 \<lparr>classList := [wrapper (priv_CSS this)],
                  dataset_placeholder :=
                    Some (i18n_t (api this)
                      (case cfg_placeholder (priv_settings this) of None \<Rightarrow> '''' | Some p \<Rightarrow> p)),
                  contentEditable := (if readOnly this then ''false'' else ''true'')\<rparr>,
               this)))"

definition render :: "(string \<Rightarrow> string \<Rightarrow> string) \<Rightarrow> Lessons \<Rightarrow> error + (element \<times> Lessons)" where
  "render html this =
     bindE (getTag html this) (\<lambda>(el, this1). Inr (el, this1\<lparr>priv_element := Some el\<rparr>))"

text \<open>
  The getter \<^verbatim>\<open>data\<close>: \<^verbatim>\<open>this._element.innerHTML\<close> throws when \<^verbatim>\<open>this._element\<close> is
  \<^verbatim>\<open>null\<close>. It returns the record and the instance, whose \<^verbatim>\<open>_data\<close> it has overwritten.
\<close>

definition get_data :: "Lessons \<Rightarrow> error + (LessonData \<times> Lessons)" where
  "get_data this =
     (case priv_element this of
        None \<Rightarrow> Inl TypeError
      | Some el \<Rightarrow>
          (let this1 = this\<lparr>priv_data := (priv_data this)\<lparr>data_text := JStr (innerHTML el)\<rparr>\<rparr> in
           bindE (deref (currentLevel this1)) (\<lambda>l.
             (let this2 = this1\<lparr>priv_data := (priv_data this1)\<lparr>data_level := number l\<rparr>\<rparr> in
              Inr (priv_data this2, this2)))))"

text \<open>
  The setter \<^verbatim>\<open>data\<close>. \<open>rebuild\<close> is the body of its first \<^verbatim>\<open>if\<close>, entered when
  \<^verbatim>\<open>data.level\<close> is not \<^verbatim>\<open>undefined\<close>: the content read from the old element is assigned to
  the new one, and \<^verbatim>\<open>replaceChild\<close> puts the new element where the old one was, so that it
  takes the old one's parent.
\<close>

definition rebuild :: "(string \<Rightarrow> string \<Rightarrow> string) \<Rightarrow> Lessons \<Rightarrow> error + Lessons" where
  "rebuild html this =
     (case priv_element this of
        None \<Rightarrow> Inl TypeError
      | Some el \<Rightarrow>
          if parentNode el \<noteq> None then
            bindE (getTag html this) (\<lambda>(newLesson, this1).
              Inr (this1\<lparr>priv_element :=
                     Some ((set_innerHTML html newLesson (innerHTML el))
                             \<lparr>parentNode := parentNode el\<rparr>)\<rparr>))
          else Inr this)"

definition set_data :: "(string \<Rightarrow> string \<Rightarrow> string) \<Rightarrow> Lessons \<Rightarrow> jsval \<Rightarrow> error + Lessons" where
  "set_data html this data =
     bindE (normalizeData (priv_settings this) data) (\<lambda>d.
     (let this1 = this\<lparr>priv_data := d\<rparr> in
      bindE (get_prop data ''level'') (\<lambda>lv.
      bindE (if lv \<noteq> JUndefined then rebuild html this1 else Inr this1) (\<lambda>this2.
      bindE (get_prop data ''text'') (\<lambda>tx.
        if tx \<noteq> JUndefined then
          (case priv_element this2 of
             None \<Rightarrow> Inl TypeError
           | Some el \<Rightarrow>
               Inr (this2\<lparr>priv_element :=
                      Some (set_innerHTML html el
                              (ToString (js_or (data_text (priv_data this2)) (JStr ''''))))\<rparr>))
        else Inr this2)))))"

text \<open>
  \<^verbatim>\<open>merge\<close>: the operator \<^verbatim>\<open>+\<close> has the string \<^verbatim>\<open>this.data.text\<close> as its left operand, so
  it concatenates the \<^verbatim>\<open>ToString\<close> of both. The getter runs twice, for \<^verbatim>\<open>text\<close> and for
  \<^verbatim>\<open>level\<close>.
\<close>

definition merge :: "(string \<Rightarrow> string \<Rightarrow> string) \<Rightarrow> Lessons \<Rightarrow> jsval \<Rightarrow> error + Lessons" where
  "merge html this data =
     bindE (get_data this) (\<lambda>(d1, this1).
     bindE (get_prop data ''text'') (\<lambda>t.
     bindE (get_data this1) (\<lambda>(d2, this2).
       set_data html this2
         (JObj [(''text'', JStr (ToString (data_text d1) @ ToString t)),
                (''level'', JNum (Finite (data_level d2)))]))))"

definition validate :: "jsval \<Rightarrow> error + bool" where
  "validate blockData =
     bindE (get_prop blockData ''text'') (\<lambda>t.
       case t of JStr s \<Rightarrow> Inr (trim s \<noteq> '''') | _ \<Rightarrow> Inl TypeError)"

definition save :: "Lessons \<Rightarrow> element \<Rightarrow> error + LessonData" where
  "save this toolsContent =
     (let text = trim (innerHTML toolsContent) in
      bindE (deref (currentLevel this)) (\<lambda>l.
        Inr \<lparr>data_text =
               (if text = '''' then JStr '''' else js_or (JStr text) (data_text (priv_data this))),
             data_level = number l\<rparr>))"

text \<open>
  \<^verbatim>\<open>onPaste\<close>: \<open>content\<close> is the pasted element \<^verbatim>\<open>event.detail.data\<close>. \<open>nearer\<close> is the
  function the source passes to \<^verbatim>\<open>reduce\<close>; an array is truthy even when empty.
\<close>

definition nearer :: "int \<Rightarrow> int \<Rightarrow> int \<Rightarrow> int" where
  "nearer level prevLevel currLevel =
     (if \<bar>currLevel - level\<bar> < \<bar>prevLevel - level\<bar> then currLevel else prevLevel)"

definition tag_level :: "int \<Rightarrow> string \<Rightarrow> int" where
  "tag_level dflt t =
     (if t = ''H1'' then 1
      else if t = ''H2'' then 2
      else if t = ''H3'' then 3
      else if t = ''H4'' then 4
      else if t = ''H5'' then 5
      else if t = ''H6'' then 6
      else dflt)"

definition onPaste :: "(string \<Rightarrow> string \<Rightarrow> string) \<Rightarrow> Lessons \<Rightarrow> element \<Rightarrow> error + Lessons" where
  "onPaste html this content =
     bindE (deref (defaultLevel (priv_settings this))) (\<lambda>d.
     (let level = tag_level (number d) (tagName content) in
      bindE (case cfg_levels (priv_settings this) of
               Some ls \<Rightarrow> reduce (nearer level) ls
             | None \<Rightarrow> Inr level) (\<lambda>level1.
        set_data html this
          (JObj [(''level'', JNum (Finite level1)), (''text'', JStr (innerHTML content))]))))"

definition pasteConfig :: "string list" where
  "pasteConfig = [''H2'']"


subsection \<open>Concrete configurations and instances\<close>

text \<open>
  What a browser reads back from plain text, for the examples: content in which \<^verbatim>\<open>&\<close> is the
  only special character (no \<^verbatim>\<open><\<close>, \<^verbatim>\<open>>\<close>, no-break space or carriage return) and
  \<^verbatim>\<open>&amp;\<close> the only character reference. Parsing decodes \<^verbatim>\<open>&amp;\<close> to \<^verbatim>\<open>&\<close>; serialising
  writes every \<^verbatim>\<open>&\<close> as \<^verbatim>\<open>&amp;\<close>. The tag makes no difference to such content.
\<close>

fun decode_amp :: "string \<Rightarrow> string" where
  "decode_amp (c0 # c1 # c2 # c3 # c4 # s) =
     (if [c0, c1, c2, c3, c4] = ''&amp;'' then CHR ''&'' # decode_amp s
      else c0 # decode_amp (c1 # c2 # c3 # c4 # s))"
| "decode_amp (c # s) = c # decode_amp s"
| "decode_amp [] = []"

definition escape_amp :: "string \<Rightarrow> string" where
  "escape_amp s = concat (map (\<lambda>c. if c = CHR ''&'' then ''&amp;'' else [c]) s)"

definition text_html :: "string \<Rightarrow> string \<Rightarrow> string" where
  "text_html t s = escape_amp (decode_amp s)"

text \<open>
  The empty config; configs whose levels leave the built-in level out; the config of the
  paste scenario. An instance holding \<^verbatim>\<open>{text: "Hello", level: 2}\<close>: as constructed, as
  rendered, and once the editor has put the rendered element into the DOM. The same with the
  level 3 stored. An instance constructed from \<^verbatim>\<open>{}\<close>, rendered as the placeholder
  \<^verbatim>\<open>DIV\<close> with its dialog open and put into the DOM; and one constructed from
  \<^verbatim>\<open>{level: 1}\<close> under \<^verbatim>\<open>config.levels = [1, 3]\<close> and rendered.
\<close>

definition plain_config :: LessonConfig where
  "plain_config = \<lparr>cfg_placeholder = None, cfg_levels = None, cfg_defaultLevel = None\<rparr>"

definition no_level_config :: LessonConfig where
  "no_level_config = \<lparr>cfg_placeholder = None, cfg_levels = Some [3], cfg_defaultLevel = None\<rparr>"

definition one_three_config :: LessonConfig where
  "one_three_config = \<lparr>cfg_placeholder = None, cfg_levels = Some [1, 3], cfg_defaultLevel = None\<rparr>"

definition restricted_config :: LessonConfig where
  "restricted_config = \<lparr>cfg_placeholder = None, cfg_levels = Some [2, 3], cfg_defaultLevel = None\<rparr>"

definition example_api :: editor_api where
  "example_api = \<lparr>styles_block = ''cdx-block'', i18n_t = (\<lambda>s. s)\<rparr>"

definition hello_new :: Lessons where
  "hello_new =
     \<lparr>api = example_api, readOnly = False,
      priv_CSS = \<lparr>block = ''cdx-block'', wrapper = ''ce-lesson''\<rparr>,
      priv_settings = plain_config,
      priv_data = \<lparr>data_text = JStr ''Hello'', data_level = 2\<rparr>,
      priv_element = None, popups = 0\<rparr>"

definition hello_element :: element where
  "hello_element =
     \<lparr>tagName = ''H2'', innerHTML = ''Hello'', classList = [''ce-lesson''],
      dataset_placeholder = Some '''', contentEditable = ''true'', parentNode = None\<rparr>"

definition hello_rendered :: Lessons where
  "hello_rendered = hello_new\<lparr>priv_element := Some hello_element\<rparr>"


definition restricted_rendered :: Lessons where
  "restricted_rendered = hello_rendered\<lparr>priv_settings := restricted_config\<rparr>"

definition third_new :: Lessons where
  "third_new = hello_new\<lparr>priv_data := \<lparr>data_text = JStr ''Hello'', data_level = 3\<rparr>\<rparr>"

definition third_rendered :: Lessons where
  "third_rendered = third_new\<lparr>priv_element := Some hello_element\<rparr>"




definition one_three_new :: Lessons where
  "one_three_new =
     hello_new\<lparr>priv_settings := one_three_config,
               priv_data := \<lparr>data_text = JStr '''', data_level = 1\<rparr>\<rparr>"

definition one_three_rendered :: Lessons where
  "one_three_rendered = one_three_new\<lparr>priv_element := Some (createElement ''DIV''), popups := 1\<rparr>"

section \<open>Properties\<close>

subsection \<open>Levels: only the second level exists\<close>

lemma levels_cases:
  "levels settings =
     (case cfg_levels settings of
        None \<Rightarrow> availableLevels
      | Some ls \<Rightarrow> if 2 \<in> set ls then availableLevels else [])"
  by (simp add: levels_def availableLevels_def split: option.splits)

lemma hd_availableLevels: "hd availableLevels = \<lparr>number = 2, tag = ''H2'', svg = icon\<rparr>"
  by (simp add: availableLevels_def)

lemma first_level_eq:
  "first_level settings = (if levels settings = [] then None else Some (hd availableLevels))"
  by (simp add: first_level_def levels_cases availableLevels_def split: option.splits)

lemma find_levels:
  "List.find P (levels settings) = Some l \<Longrightarrow> levels settings \<noteq> [] \<and> l = hd availableLevels"
  by (auto simp: levels_cases availableLevels_def split: option.splits if_splits)

lemma defaultLevel_eq:
  "defaultLevel settings = (if levels settings = [] then None else Some (hd availableLevels))"
  by (auto simp: defaultLevel_def first_level_eq split: option.splits dest: find_levels)

lemma currentLevel_eq:
  "currentLevel this =
     (if levels (priv_settings this) = [] then None else Some (hd availableLevels))"
  by (auto simp: currentLevel_def defaultLevel_eq split: option.splits dest: find_levels)

lemma deref_defaultLevel:
  "levels settings \<noteq> [] \<Longrightarrow>
   deref (defaultLevel settings) = Inr \<lparr>number = 2, tag = ''H2'', svg = icon\<rparr>"
  by (simp add: deref_def defaultLevel_eq hd_availableLevels)

lemma deref_defaultLevel_empty:
  "levels settings = [] \<Longrightarrow> deref (defaultLevel settings) = Inl TypeError"
  by (simp add: deref_def defaultLevel_eq)

lemma deref_currentLevel:
  "levels (priv_settings this) \<noteq> [] \<Longrightarrow>
   deref (currentLevel this) = Inr \<lparr>number = 2, tag = ''H2'', svg = icon\<rparr>"
  by (simp add: deref_def currentLevel_eq hd_availableLevels)

lemma levels_plain_nonempty: "levels plain_config \<noteq> []"
  by (simp add: levels_def plain_config_def availableLevels_def)

text \<open>
  C10. Whatever the config, \<^verbatim>\<open>levels\<close> holds at most one level, the one numbered 2 with tag
  \<^verbatim>\<open>H2\<close>, and holds it unless \<^verbatim>\<open>config.levels\<close> is given without 2; so \<^verbatim>\<open>currentLevel\<close>
  is that level whenever any level is available, and \<^verbatim>\<open>pasteConfig\<close> lists \<^verbatim>\<open>H2\<close> alone.
\<close>

theorem levels_only_H2:
  "levels settings =
     (case cfg_levels settings of
        None \<Rightarrow> [\<lparr>number = 2, tag = ''H2'', svg = icon\<rparr>]
      | Some ls \<Rightarrow> if 2 \<in> set ls then [\<lparr>number = 2, tag = ''H2'', svg = icon\<rparr>] else [])
   \<and> length (levels settings) \<le> 1
   \<and> (levels (priv_settings this) \<noteq> [] \<longrightarrow>
        currentLevel this = Some \<lparr>number = 2, tag = ''H2'', svg = icon\<rparr>)
   \<and> pasteConfig = [''H2'']"
  by (simp add: levels_cases currentLevel_eq pasteConfig_def availableLevels_def
      split: option.splits)

theorem levels_only_H2_witness:
  "levels restricted_config = [\<lparr>number = 2, tag = ''H2'', svg = icon\<rparr>]
   \<and> levels no_level_config = []
   \<and> currentLevel hello_new = Some \<lparr>number = 2, tag = ''H2'', svg = icon\<rparr>
   \<and> pasteConfig = [''H2'']"
proof -
  have h: "levels (priv_settings hello_new) \<noteq> []"
    by (simp add: hello_new_def levels_plain_nonempty)
  show ?thesis
    using levels_only_H2[of restricted_config hello_new] levels_only_H2[of no_level_config hello_new] h
    by (simp add: restricted_config_def no_level_config_def)
qed

subsection \<open>The nearest level\<close>

lemma foldl_nearer:
  "\<exists>i<length (x # xs).
      foldl (nearer t) x xs = (x # xs) ! i
    \<and> (\<forall>j<length (x # xs). \<bar>(x # xs) ! i - t\<bar> \<le> \<bar>(x # xs) ! j - t\<bar>)
    \<and> (\<forall>j<i. \<bar>(x # xs) ! i - t\<bar> < \<bar>(x # xs) ! j - t\<bar>)"
proof (induction xs rule: rev_induct)
  case Nil
  show ?case by simp
next
  case (snoc y xs)
  let ?ys = "x # xs"
  let ?r = "foldl (nearer t) x xs"
  from snoc obtain i where i: "i < length ?ys" "?r = ?ys ! i"
    and le: "\<forall>j<length ?ys. \<bar>?ys ! i - t\<bar> \<le> \<bar>?ys ! j - t\<bar>"
    and lt: "\<forall>j<i. \<bar>?ys ! i - t\<bar> < \<bar>?ys ! j - t\<bar>"
    by blast
  have app: "x # xs @ [y] = ?ys @ [y]" by simp
  have old: "\<And>j. j < length ?ys \<Longrightarrow> (?ys @ [y]) ! j = ?ys ! j"
    by (simp only: nth_append if_True)
  have new: "(?ys @ [y]) ! length ?ys = y"
    by (simp only: nth_append_length)
  have len: "length (?ys @ [y]) = Suc (length ?ys)" by simp
  show ?case
  proof (cases "\<bar>y - t\<bar> < \<bar>?r - t\<bar>")
    case True
    have res: "foldl (nearer t) x (xs @ [y]) = y"
      using True by (simp add: nearer_def)
    have all: "\<forall>j<length (?ys @ [y]). \<bar>y - t\<bar> \<le> \<bar>(?ys @ [y]) ! j - t\<bar>"
    proof (intro allI impI)
      fix j assume "j < length (?ys @ [y])"
      then consider "j < length ?ys" | "j = length ?ys" using len by linarith
      then show "\<bar>y - t\<bar> \<le> \<bar>(?ys @ [y]) ! j - t\<bar>"
      proof cases
        case 1
        with le i True old[OF 1] show ?thesis by force
      next
        case 2
        with new show ?thesis by simp
      qed
    qed
    have before: "\<forall>j<length ?ys. \<bar>y - t\<bar> < \<bar>(?ys @ [y]) ! j - t\<bar>"
    proof (intro allI impI)
      fix j assume j: "j < length ?ys"
      with le i True old[OF j] show "\<bar>y - t\<bar> < \<bar>(?ys @ [y]) ! j - t\<bar>" by force
    qed
    show ?thesis
      unfolding app
      apply (rule exI[of _ "length ?ys"])
      using res all before new len by simp
  next
    case False
    have res: "foldl (nearer t) x (xs @ [y]) = ?ys ! i"
      using False i by (simp add: nearer_def)
    have iold: "(?ys @ [y]) ! i = ?ys ! i" using old[OF i(1)] .
    have all: "\<forall>j<length (?ys @ [y]). \<bar>?ys ! i - t\<bar> \<le> \<bar>(?ys @ [y]) ! j - t\<bar>"
    proof (intro allI impI)
      fix j assume "j < length (?ys @ [y])"
      then consider "j < length ?ys" | "j = length ?ys" using len by linarith
      then show "\<bar>?ys ! i - t\<bar> \<le> \<bar>(?ys @ [y]) ! j - t\<bar>"
      proof cases
        case 1
        with le old[OF 1] show ?thesis by simp
      next
        case 2
        with new False i show ?thesis by simp
      qed
    qed
    have before: "\<forall>j<i. \<bar>?ys ! i - t\<bar> < \<bar>(?ys @ [y]) ! j - t\<bar>"
    proof (intro allI impI)
      fix j assume j: "j < i"
      then have "j < length ?ys" using i by simp
      from old[OF this] lt j show "\<bar>?ys ! i - t\<bar> < \<bar>(?ys @ [y]) ! j - t\<bar>" by simp
    qed
    have ilt: "i < length (?ys @ [y])" using i len by simp
    show ?thesis
      unfolding app
      apply (rule exI[of _ i])
      using res all before iold ilt by simp
  qed
qed

text \<open>
  C6. On a non-empty array of integers the \<^verbatim>\<open>reduce\<close> of \<^verbatim>\<open>onPaste\<close> returns an element of
  the array, at some index \<open>i\<close>; no element is nearer to the target than it, and every element
  before \<open>i\<close> is strictly farther: among the nearest, the first one is returned.
\<close>

theorem nearest_first_minimum:
  assumes "candidates \<noteq> []"
  shows "\<exists>i<length candidates.
           reduce (nearer target) candidates = Inr (candidates ! i)
         \<and> (\<forall>j<length candidates. \<bar>candidates ! i - target\<bar> \<le> \<bar>candidates ! j - target\<bar>)
         \<and> (\<forall>j<i. \<bar>candidates ! i - target\<bar> < \<bar>candidates ! j - target\<bar>)"
proof -
  from assms obtain x xs where c: "candidates = x # xs" by (cases candidates) auto
  show ?thesis unfolding c reduce.simps using foldl_nearer[of x xs target] by blast
qed

theorem nearest_first_minimum_witness:
  "[3, 1, 5] \<noteq> ([] :: int list)
   \<and> (\<exists>i<length [3, 1, 5 :: int].
          reduce (nearer 2) [3, 1, 5] = Inr ([3, 1, 5] ! i)
        \<and> (\<forall>j<length [3, 1, 5 :: int].
               \<bar>[3, 1, 5 :: int] ! i - 2\<bar> \<le> \<bar>[3, 1, 5 :: int] ! j - 2\<bar>)
        \<and> (\<forall>j<i. \<bar>[3, 1, 5 :: int] ! i - 2\<bar> < \<bar>[3, 1, 5 :: int] ! j - 2\<bar>))
   \<and> reduce (nearer 2) [3, 1, 5] = Inr 3"
proof -
  have h: "[3, 1, 5] \<noteq> ([] :: int list)" by simp
  have r: "reduce (nearer 2) [3, 1, 5] = Inr 3" by (simp add: nearer_def)
  show ?thesis by (intro conjI h r nearest_first_minimum[OF h])
qed

subsection \<open>\<^verbatim>\<open>parseInt\<close> reads an integer back\<close>

lemma of_char_digit_char: "d < 10 \<Longrightarrow> of_char (digit_char d) = 48 + d"
  by (simp add: digit_char_def)

lemma digit_of_digit_char: "d < 10 \<Longrightarrow> digit_of (digit_char d) = d"
  by (simp add: digit_of_def of_char_digit_char)

lemma digit_char_neq:
  assumes "d < 10" and "(of_char c :: nat) < 48 \<or> 57 < (of_char c :: nat)"
  shows "digit_char d \<noteq> c"
proof
  assume "digit_char d = c"
  then have "(of_char c :: nat) = 48 + d" using of_char_digit_char[OF assms(1)] by simp
  with assms show False by auto
qed

lemma decimal_digit_facts:
  assumes "c \<in> digit_char ` {..<10}"
  shows "digit_of c < 10" and "\<not> is_space c" and "c \<noteq> CHR ''-''" and "c \<noteq> CHR ''+''"
    and "c \<noteq> CHR ''x''" and "c \<noteq> CHR ''X''"
proof -
  from assms obtain d where d: "d < 10" "c = digit_char d" by auto
  show "digit_of c < 10" using d by (simp add: digit_of_digit_char)
  show "\<not> is_space c" using d by (simp add: is_space_def of_char_digit_char)
  show "c \<noteq> CHR ''-''" using d digit_char_neq[of d "CHR ''-''"] by simp
  show "c \<noteq> CHR ''+''" using d digit_char_neq[of d "CHR ''+''"] by simp
  show "c \<noteq> CHR ''x''" using d digit_char_neq[of d "CHR ''x''"] by simp
  show "c \<noteq> CHR ''X''" using d digit_char_neq[of d "CHR ''X''"] by simp
qed

lemma nat_digits_digits: "set (nat_digits n) \<subseteq> digit_char ` {..<10}"
proof (induction n rule: nat_digits.induct)
  case (1 n)
  show ?case
  proof (cases "n < 10")
    case True
    then show ?thesis by (subst nat_digits.simps) simp
  next
    case False
    have "n mod 10 < 10" by simp
    then have "digit_char (n mod 10) \<in> digit_char ` {..<10}" by blast
    with False 1 show ?thesis by (subst nat_digits.simps) simp
  qed
qed

lemma nat_digits_nonempty: "nat_digits n \<noteq> []"
  by (subst nat_digits.simps) simp

lemma nat_digits_value: "foldl (\<lambda>a c. a * 10 + digit_of c) 0 (nat_digits n) = n"
proof (induction n rule: nat_digits.induct)
  case (1 n)
  show ?case
  proof (cases "n < 10")
    case True
    then show ?thesis by (subst nat_digits.simps) (simp add: digit_of_digit_char)
  next
    case False
    with 1 show ?thesis
      by (subst nat_digits.simps) (simp add: digit_of_digit_char)
  qed
qed

lemma parse_digits_nat_digits: "parse_digits 10 sign (nat_digits n) = Finite (sign * int n)"
proof -
  have all: "\<forall>c\<in>set (nat_digits n). digit_of c < 10"
    using nat_digits_digits[of n] decimal_digit_facts(1) by blast
  have tw: "takeWhile (\<lambda>c. digit_of c < 10) (nat_digits n) = nat_digits n"
    using all by (simp only: takeWhile_eq_all_conv)
  show ?thesis
    unfolding parse_digits_def Let_def tw by (simp add: nat_digits_nonempty nat_digits_value)
qed

lemma strip_prefix_nat_digits: "strip_prefix sign (nat_digits n) = Finite (sign * int n)"
proof (cases "nat_digits n")
  case Nil
  then show ?thesis using nat_digits_nonempty[of n] by simp
next
  case (Cons c0 r)
  show ?thesis
  proof (cases r)
    case Nil
    with Cons have "strip_prefix sign (nat_digits n) = parse_digits 10 sign (nat_digits n)"
      by simp
    then show ?thesis by (simp add: parse_digits_nat_digits)
  next
    case (Cons c1 s)
    with \<open>nat_digits n = c0 # r\<close> have eq: "nat_digits n = c0 # c1 # s" by simp
    then have "c1 \<in> digit_char ` {..<10}" using nat_digits_digits[of n] by simp
    then have "c1 \<noteq> CHR ''x''" "c1 \<noteq> CHR ''X''" by (simp_all add: decimal_digit_facts)
    then have "strip_prefix sign (c0 # c1 # s) = parse_digits 10 sign (c0 # c1 # s)" by simp
    then show ?thesis using parse_digits_nat_digits[of sign n] by (simp add: eq)
  qed
qed

lemma parse_sign_nat_digits: "parse_sign (nat_digits n) = Finite (int n)"
proof -
  obtain c s where eq: "nat_digits n = c # s"
    using nat_digits_nonempty[of n] by (cases "nat_digits n") auto
  then have "c \<in> digit_char ` {..<10}" using nat_digits_digits[of n] by simp
  then have "c \<noteq> CHR ''-''" "c \<noteq> CHR ''+''" by (simp_all add: decimal_digit_facts)
  then have "parse_sign (c # s) = strip_prefix 1 (c # s)" by simp
  then show ?thesis using strip_prefix_nat_digits[of 1 n] by (simp add: eq)
qed

lemma dropWhile_nat_digits: "dropWhile is_space (nat_digits n) = nat_digits n"
proof -
  obtain c s where eq: "nat_digits n = c # s"
    using nat_digits_nonempty[of n] by (cases "nat_digits n") auto
  then have "c \<in> digit_char ` {..<10}" using nat_digits_digits[of n] by simp
  then have "\<not> is_space c" by (simp add: decimal_digit_facts)
  then show ?thesis by (simp add: eq)
qed

lemma parseInt_integer: "parseInt (JNum (Finite n)) = Finite n"
proof (cases "n < 0")
  case True
  have "\<not> is_space CHR ''-''" by (simp add: is_space_def)
  then show ?thesis
    using True by (simp add: parseInt_def int_string_def strip_prefix_nat_digits)
next
  case False
  then show ?thesis
    by (simp add: parseInt_def int_string_def dropWhile_nat_digits parse_sign_nat_digits)
qed

lemma parseInt_undefined: "parseInt JUndefined = NaN"
  by (simp add: parseInt_def is_space_def parse_digits_def digit_of_def)

subsection \<open>Normalising the data\<close>


lemma normalizeData_nonobject:
  "typeof data \<noteq> ''object'' \<Longrightarrow> normalizeData settings data = normalizeData settings (JObj [])"
  by (simp add: normalizeData_def)

lemma normalizeData_object:
  assumes "levels settings \<noteq> []"
  shows "normalizeData settings (JObj fs) =
           Inr \<lparr>data_text =
                  js_or (case map_of fs ''text'' of None \<Rightarrow> JUndefined | Some v \<Rightarrow> v) (JStr ''''),
                data_level =
                  (case parseInt (case map_of fs ''level'' of None \<Rightarrow> JUndefined | Some v \<Rightarrow> v) of
                     NaN \<Rightarrow> 2
                   | Finite n \<Rightarrow> if n \<noteq> 0 then n else 2)\<rparr>"
  using assms
  by (simp add: normalizeData_def bindE_def deref_defaultLevel split: jsnum.splits)

lemma normalizeData_empty_levels:
  assumes "levels settings = []"
  shows "normalizeData settings (JObj fs) =
           (case parseInt (case map_of fs ''level'' of None \<Rightarrow> JUndefined | Some v \<Rightarrow> v) of
              NaN \<Rightarrow> Inl TypeError
            | Finite n \<Rightarrow>
                if n \<noteq> 0 then
                  Inr \<lparr>data_text =
                         js_or (case map_of fs ''text'' of None \<Rightarrow> JUndefined | Some v \<Rightarrow> v)
                           (JStr ''''),
                       data_level = n\<rparr>
                else Inl TypeError)"
  using assms
  by (simp add: normalizeData_def bindE_def deref_defaultLevel_empty split: jsnum.splits)





subsection \<open>Saving and reading the record\<close>

lemma text_html_Hello: "text_html t ''Hello'' = ''Hello''"
  by (simp add: text_html_def escape_amp_def)

lemma text_html_empty: "text_html t '''' = ''''"
  by (simp add: text_html_def escape_amp_def)

lemma hello_constructed:
  "constructor (JObj [(''text'', JStr ''Hello''), (''level'', JNum (Finite 2))])
     plain_config example_api False = Inr hello_new"
  by (simp add: constructor_def bindE_def normalizeData_object[OF levels_plain_nonempty]
      parseInt_integer js_or_def hello_new_def example_api_def)

lemma levels_hello_new: "levels (priv_settings hello_new) \<noteq> []"
  by (simp add: hello_new_def levels_plain_nonempty)

lemma levels_hello_rendered: "levels (priv_settings hello_rendered) \<noteq> []"
  by (simp add: hello_rendered_def hello_new_def levels_plain_nonempty)

lemma hello_render: "render text_html hello_new = Inr (hello_element, hello_rendered)"
  using deref_currentLevel[OF levels_hello_new]
  by (simp add: render_def getTag_def bindE_def hello_rendered_def hello_element_def
      createElement_def set_innerHTML_def js_or_def)
     (simp add: hello_new_def example_api_def plain_config_def text_html_Hello)

lemma save_eq:
  assumes "levels (priv_settings this) \<noteq> []"
  shows "save this toolsContent =
           Inr \<lparr>data_text = JStr (trim (innerHTML toolsContent)), data_level = 2\<rparr>"
  by (simp add: save_def Let_def bindE_def deref_currentLevel[OF assms] js_or_def)

text \<open>
  C3, as the code has it. When the content of the element is empty once trimmed, \<^verbatim>\<open>save\<close>
  returns the empty string as text, whatever text is stored, and the number of the current
  level as level.
\<close>

theorem save_empty_content:
  assumes "trim (innerHTML toolsContent) = ''''" and "levels (priv_settings this) \<noteq> []"
  shows "\<exists>l. currentLevel this = Some l
           \<and> save this toolsContent = Inr \<lparr>data_text = JStr '''', data_level = number l\<rparr>"
  using assms by (simp add: save_eq currentLevel_eq hd_availableLevels)

theorem save_empty_content_witness:
  "\<exists>l. currentLevel hello_rendered = Some l
     \<and> save hello_rendered (hello_element\<lparr>innerHTML := ''  ''\<rparr>)
         = Inr \<lparr>data_text = JStr '''', data_level = number l\<rparr>"
proof -
  have h1: "trim (innerHTML (hello_element\<lparr>innerHTML := ''  ''\<rparr>)) = ''''"
    by (simp add: trim_def is_space_def)
  show ?thesis using save_empty_content[OF h1 levels_hello_rendered] .
qed

text \<open>
  The instance stores the text \<^verbatim>\<open>Hello\<close>; saving its element with the content emptied gives
  the empty text, not the stored one.
\<close>

theorem save_empty_content_counterexample:
  "render text_html hello_new = Inr (hello_element, hello_rendered)
   \<and> data_text (priv_data hello_rendered) = JStr ''Hello''
   \<and> innerHTML (hello_element\<lparr>innerHTML := ''''\<rparr>) = ''''
   \<and> save hello_rendered (hello_element\<lparr>innerHTML := ''''\<rparr>)
       = Inr \<lparr>data_text = JStr '''', data_level = 2\<rparr>"
  by (simp add: hello_render save_eq[OF levels_hello_rendered] trim_def)
     (simp add: hello_rendered_def hello_new_def)

lemma get_data_eq:
  assumes avail: "levels (priv_settings this) \<noteq> []" and el: "priv_element this = Some el"
  shows "get_data this =
           Inr (\<lparr>data_text = JStr (innerHTML el), data_level = 2\<rparr>,
                this\<lparr>priv_data := \<lparr>data_text = JStr (innerHTML el), data_level = 2\<rparr>\<rparr>)"
proof -
  let ?this1 = "this\<lparr>priv_data := (priv_data this)\<lparr>data_text := JStr (innerHTML el)\<rparr>\<rparr>"
  have "levels (priv_settings ?this1) \<noteq> []" using avail by simp
  from deref_currentLevel[OF this] show ?thesis
    using el by (simp add: get_data_def Let_def bindE_def)
qed

text \<open>
  C9, as the code has it. The getter \<^verbatim>\<open>data\<close> throws a \<^verbatim>\<open>TypeError\<close> while no element has
  been rendered; once one has, and a level is available, it returns and stores the record
  whose text is the content of the element and whose level is the number of the current
  level.
\<close>

theorem get_data_element:
  "(priv_element this = None \<longrightarrow> get_data this = Inl TypeError)
   \<and> (\<forall>el. priv_element this = Some el \<longrightarrow> levels (priv_settings this) \<noteq> [] \<longrightarrow>
         get_data this =
           Inr (\<lparr>data_text = JStr (innerHTML el), data_level = 2\<rparr>,
                this\<lparr>priv_data := \<lparr>data_text = JStr (innerHTML el), data_level = 2\<rparr>\<rparr>))"
proof (intro conjI allI impI)
  assume "priv_element this = None"
  then show "get_data this = Inl TypeError" by (simp add: get_data_def)
next
  fix el
  assume "priv_element this = Some el" and "levels (priv_settings this) \<noteq> []"
  then show "get_data this =
           Inr (\<lparr>data_text = JStr (innerHTML el), data_level = 2\<rparr>,
                this\<lparr>priv_data := \<lparr>data_text = JStr (innerHTML el), data_level = 2\<rparr>\<rparr>)"
    by (simp add: get_data_eq)
qed

theorem get_data_element_witness:
  "get_data hello_rendered =
     Inr (\<lparr>data_text = JStr ''Hello'', data_level = 2\<rparr>,
          hello_rendered\<lparr>priv_data := \<lparr>data_text = JStr ''Hello'', data_level = 2\<rparr>\<rparr>)"
proof -
  have h1: "priv_element hello_rendered = Some hello_element"
    by (simp add: hello_rendered_def)
  have "innerHTML hello_element = ''Hello''" by (simp add: hello_element_def)
  with get_data_element[of hello_rendered] h1 levels_hello_rendered show ?thesis by simp
qed

text \<open>The instance as constructed has no element, and the getter throws.\<close>

theorem get_data_counterexample:
  "constructor (JObj [(''text'', JStr ''Hello''), (''level'', JNum (Finite 2))])
     plain_config example_api False = Inr hello_new
   \<and> priv_element hello_new = None
   \<and> get_data hello_new = Inl TypeError"
  by (simp add: hello_constructed) (simp add: get_data_def hello_new_def)

subsection \<open>Construction when no level is available\<close>

lemma levels_no_level_config: "levels no_level_config = []"
  by (simp add: levels_def no_level_config_def availableLevels_def)

text \<open>
  C8, as the code has it. When \<^verbatim>\<open>levels\<close> is empty, \<^verbatim>\<open>defaultLevel\<close> is \<^verbatim>\<open>undefined\<close> and
  nothing is signalled. The constructor then throws a \<^verbatim>\<open>TypeError\<close> on an input that is not
  an object and on an object whose \<^verbatim>\<open>level\<close> does not parse to an integer other than 0; on
  any other object it returns an instance that keeps the parsed level, for which
  \<^verbatim>\<open>currentLevel\<close> is \<^verbatim>\<open>undefined\<close>.
\<close>

theorem construction_without_level:
  assumes "levels config = []"
  shows "defaultLevel config = None
       \<and> (typeof data \<noteq> ''object'' \<longrightarrow> constructor data config a ro = Inl TypeError)
       \<and> (\<forall>fs. data = JObj fs \<longrightarrow>
            (case parseInt (case map_of fs ''level'' of None \<Rightarrow> JUndefined | Some v \<Rightarrow> v) of
               NaN \<Rightarrow> constructor data config a ro = Inl TypeError
             | Finite n \<Rightarrow>
                 if n = 0 then constructor data config a ro = Inl TypeError
                 else \<exists>this. constructor data config a ro = Inr this
                        \<and> data_level (priv_data this) = n \<and> currentLevel this = None))"
proof (intro conjI allI impI)
  show "defaultLevel config = None" using assms by (simp add: defaultLevel_eq)
next
  assume "typeof data \<noteq> ''object''"
  then show "constructor data config a ro = Inl TypeError"
    by (simp add: constructor_def normalizeData_nonobject normalizeData_empty_levels[OF assms]
        parseInt_undefined bindE_def)
next
  fix fs assume "data = JObj fs"
  then show "case parseInt (case map_of fs ''level'' of None \<Rightarrow> JUndefined | Some v \<Rightarrow> v) of
               NaN \<Rightarrow> constructor data config a ro = Inl TypeError
             | Finite n \<Rightarrow>
                 if n = 0 then constructor data config a ro = Inl TypeError
                 else \<exists>this. constructor data config a ro = Inr this
                        \<and> data_level (priv_data this) = n \<and> currentLevel this = None"
    using assms
    by (simp add: constructor_def normalizeData_empty_levels[OF assms] bindE_def currentLevel_eq
        split: jsnum.splits)
qed

theorem construction_without_level_witness:
  "defaultLevel no_level_config = None
   \<and> constructor (JObj [(''text'', JStr ''a'')]) no_level_config example_api False = Inl TypeError"
proof -
  have h: "levels no_level_config = []" by (rule levels_no_level_config)
  show ?thesis
    using construction_without_level[OF h, of "JObj [(''text'', JStr ''a'')]" example_api False]
    by (simp add: parseInt_undefined)
qed

text \<open>
  With \<^verbatim>\<open>config.levels = [3]\<close> no level is available, yet \<^verbatim>\<open>{text: "a", level: 3}\<close> is
  constructed without any error.
\<close>

theorem construction_counterexample:
  "levels no_level_config = []
   \<and> defaultLevel no_level_config = None
   \<and> constructor (JObj [(''text'', JStr ''a''), (''level'', JNum (Finite 3))])
        no_level_config example_api False
       = Inr \<lparr>api = example_api, readOnly = False,
              priv_CSS = \<lparr>block = ''cdx-block'', wrapper = ''ce-lesson''\<rparr>,
              priv_settings = no_level_config,
              priv_data = \<lparr>data_text = JStr ''a'', data_level = 3\<rparr>,
              priv_element = None, popups = 0\<rparr>"
  by (simp add: levels_no_level_config defaultLevel_eq constructor_def bindE_def
      normalizeData_empty_levels[OF levels_no_level_config] parseInt_integer js_or_def)
     (simp add: example_api_def)

subsection \<open>The round trip\<close>









subsection \<open>The setter\<close>

lemma getTag_ok:
  assumes "levels (priv_settings this) \<noteq> []"
  shows "\<exists>el this1. getTag html this = Inr (el, this1)
           \<and> priv_settings this1 = priv_settings this
           \<and> priv_data this1 = priv_data this
           \<and> priv_element this1 = priv_element this
           \<and> (truthy (data_text (priv_data this)) \<longrightarrow> tagName el = ''H2'')"
  using deref_currentLevel[OF assms]
  by (simp add: getTag_def bindE_def createPopUp_def createElement_def set_innerHTML_def)

lemma rebuild_ok:
  assumes avail: "levels (priv_settings this) \<noteq> []" and el: "priv_element this = Some el"
  shows "\<exists>el1 this1. rebuild html this = Inr this1
           \<and> priv_settings this1 = priv_settings this
           \<and> priv_data this1 = priv_data this
           \<and> priv_element this1 = Some el1
           \<and> parentNode el1 = parentNode el"
proof (cases "parentNode el = None")
  case True
  then show ?thesis using el by (simp add: rebuild_def)
next
  case False
  from getTag_ok[OF avail, of html] obtain nl this1 where g: "getTag html this = Inr (nl, this1)"
    and s: "priv_settings this1 = priv_settings this" "priv_data this1 = priv_data this"
    by blast
  show ?thesis using False el g s by (simp add: rebuild_def bindE_def set_innerHTML_def)
qed

lemma set_data_ok:
  assumes avail: "levels (priv_settings this) \<noteq> []" and el: "priv_element this = Some el"
  shows "\<exists>el1 this1 d. set_data html this (JObj fs) = Inr this1
           \<and> normalizeData (priv_settings this) (JObj fs) = Inr d
           \<and> priv_settings this1 = priv_settings this
           \<and> priv_data this1 = d
           \<and> priv_element this1 = Some el1
           \<and> parentNode el1 = parentNode el
           \<and> (map_of fs ''text'' \<noteq> None \<longrightarrow> map_of fs ''text'' \<noteq> Some JUndefined \<longrightarrow>
                innerHTML el1 = html (tagName el1) (ToString (data_text d)))"
proof -
  obtain d where d: "normalizeData (priv_settings this) (JObj fs) = Inr d"
    by (simp add: normalizeData_object[OF avail])
  have dt: "data_text d = js_or (case map_of fs ''text'' of None \<Rightarrow> JUndefined | Some v \<Rightarrow> v) (JStr '''')"
    using d by (auto simp: normalizeData_object[OF avail])
  let ?this1 = "this\<lparr>priv_data := d\<rparr>"
  let ?lv = "case map_of fs ''level'' of None \<Rightarrow> JUndefined | Some v \<Rightarrow> v"
  let ?tx = "case map_of fs ''text'' of None \<Rightarrow> JUndefined | Some v \<Rightarrow> v"
  have av1: "levels (priv_settings ?this1) \<noteq> []" using avail by simp
  have el1: "priv_element ?this1 = Some el" using el by simp
  obtain e2 this2 where r: "(if ?lv \<noteq> JUndefined then rebuild html ?this1 else Inr ?this1) = Inr this2"
    and s2: "priv_settings this2 = priv_settings this" "priv_data this2 = d"
      "priv_element this2 = Some e2" "parentNode e2 = parentNode el"
  proof (cases "?lv \<noteq> JUndefined")
    case True
    from rebuild_ok[OF av1 el1, of html] obtain e2 this2 where "rebuild html ?this1 = Inr this2"
      "priv_settings this2 = priv_settings ?this1" "priv_data this2 = priv_data ?this1"
      "priv_element this2 = Some e2" "parentNode e2 = parentNode el"
      by blast
    with True that[of this2 e2] show ?thesis by simp
  next
    case False
    with that[of ?this1 el] el show ?thesis by simp
  qed
  have str: "ToString (js_or (data_text d) (JStr '''')) = ToString (data_text d)"
    by (simp add: js_or_def dt)
  have txdef: "(?tx = JUndefined) = (map_of fs ''text'' = None \<or> map_of fs ''text'' = Some JUndefined)"
    by (simp split: option.splits)
  show ?thesis
  proof (cases "?tx = JUndefined")
    case True
    have "set_data html this (JObj fs) = Inr this2"
      using True by (simp add: set_data_def d bindE_def Let_def r)
    with s2 True d show ?thesis unfolding txdef by auto
  next
    case False
    have "set_data html this (JObj fs) =
            Inr (this2\<lparr>priv_element := Some (set_innerHTML html e2 (ToString (data_text d)))\<rparr>)"
      using False s2 by (simp add: set_data_def d bindE_def Let_def r str)
    with s2 False d show ?thesis unfolding txdef by (auto simp: set_innerHTML_def)
  qed
qed

lemma truthy_normalized_text:
  assumes "levels settings \<noteq> []" and "normalizeData settings (JObj fs) = Inr d" and "truthy (data_text d)"
  shows "map_of fs ''text'' \<noteq> None \<and> map_of fs ''text'' \<noteq> Some JUndefined"
  using assms(2,3)
  by (auto simp: normalizeData_object[OF assms(1)] js_or_def split: option.splits if_splits)








subsection \<open>Pasting\<close>

lemma onPaste_unrestricted:
  assumes el: "priv_element this = Some el" and none: "cfg_levels (priv_settings this) = None"
  shows "\<exists>this1. onPaste html this content = Inr this1
           \<and> priv_data this1 =
               \<lparr>data_text = JStr (innerHTML content),
                data_level = tag_level 2 (tagName content)\<rparr>"
proof -
  have avail: "levels (priv_settings this) \<noteq> []"
    using none by (simp add: levels_cases availableLevels_def)
  let ?m = "tag_level 2 (tagName content)"
  let ?obj = "[(''level'', JNum (Finite ?m)), (''text'', JStr (innerHTML content))]"
  have paste: "onPaste html this content = set_data html this (JObj ?obj)"
    by (simp add: onPaste_def bindE_def deref_defaultLevel[OF avail] none Let_def)
  from set_data_ok[OF avail el, of html ?obj] obtain this1 d where
    s: "set_data html this (JObj ?obj) = Inr this1"
    and n: "normalizeData (priv_settings this) (JObj ?obj) = Inr d"
    and p: "priv_data this1 = d"
    by blast
  have "?m \<noteq> 0" by (simp add: tag_level_def)
  then have d: "d = \<lparr>data_text = JStr (innerHTML content), data_level = ?m\<rparr>"
    using n by (auto simp: normalizeData_object[OF avail] js_or_def parseInt_integer)
  show ?thesis using paste s p d by simp
qed

lemma onPaste_restricted:
  assumes el: "priv_element this = Some el"
    and ls: "cfg_levels (priv_settings this) = Some ls"
    and two: "2 \<in> set ls"
  shows "\<exists>i<length ls. \<exists>this1.
             (\<forall>j<length ls. \<bar>ls ! i - tag_level 2 (tagName content)\<bar>
                               \<le> \<bar>ls ! j - tag_level 2 (tagName content)\<bar>)
           \<and> (\<forall>j<i. \<bar>ls ! i - tag_level 2 (tagName content)\<bar>
                       < \<bar>ls ! j - tag_level 2 (tagName content)\<bar>)
           \<and> onPaste html this content = Inr this1
           \<and> priv_data this1 =
               \<lparr>data_text = JStr (innerHTML content),
                data_level = (if ls ! i = 0 then 2 else ls ! i)\<rparr>"
proof -
  have avail: "levels (priv_settings this) \<noteq> []"
    using ls two by (simp add: levels_cases availableLevels_def)
  let ?m = "tag_level 2 (tagName content)"
  from two obtain x xs where c: "ls = x # xs" by (cases ls) auto
  from foldl_nearer[of x xs ?m] obtain i where i: "i < length ls"
    and f: "foldl (nearer ?m) x xs = ls ! i"
    and le: "\<forall>j<length ls. \<bar>ls ! i - ?m\<bar> \<le> \<bar>ls ! j - ?m\<bar>"
    and lt: "\<forall>j<i. \<bar>ls ! i - ?m\<bar> < \<bar>ls ! j - ?m\<bar>"
    unfolding c by blast
  have red: "reduce (nearer ?m) ls = Inr (ls ! i)"
    using f by (simp add: c)
  let ?obj = "[(''level'', JNum (Finite (ls ! i))), (''text'', JStr (innerHTML content))]"
  have paste: "onPaste html this content = set_data html this (JObj ?obj)"
    by (simp add: onPaste_def bindE_def deref_defaultLevel[OF avail] ls Let_def red)
  from set_data_ok[OF avail el, of html ?obj] obtain this1 d where
    s: "set_data html this (JObj ?obj) = Inr this1"
    and n: "normalizeData (priv_settings this) (JObj ?obj) = Inr d"
    and p: "priv_data this1 = d"
    by blast
  have d: "d = \<lparr>data_text = JStr (innerHTML content),
                 data_level = (if ls ! i = 0 then 2 else ls ! i)\<rparr>"
    using n by (auto simp: normalizeData_object[OF avail] js_or_def parseInt_integer)
  show ?thesis
    using i le lt paste s p d by auto
qed

lemma onPaste_unavailable:
  assumes ls: "cfg_levels (priv_settings this) = Some ls" and two: "2 \<notin> set ls"
  shows "onPaste html this content = Inl TypeError"
proof -
  have "levels (priv_settings this) = []"
    using ls two by (simp add: levels_cases)
  then show ?thesis
    by (simp add: onPaste_def bindE_def deref_defaultLevel_empty)
qed

text \<open>
  C5, as the code has it. \<^verbatim>\<open>onPaste\<close> maps the tags \<^verbatim>\<open>H1\<close> to \<^verbatim>\<open>H6\<close> to the numbers 1 to 6
  and any other tag to the default. On a rendered instance: without \<^verbatim>\<open>config.levels\<close> it
  stores the record with the mapped number as level; with \<^verbatim>\<open>config.levels\<close> containing 2 it
  stores as level the first of the entries of \<^verbatim>\<open>config.levels\<close> nearest to the mapped number
  (the default 2 in its place should that entry be 0); the text stored is the pasted content.
  With \<^verbatim>\<open>config.levels\<close> not containing 2 it throws a \<^verbatim>\<open>TypeError\<close>.
\<close>

theorem onPaste_nearest_level:
  assumes el: "priv_element this = Some el"
  shows "map (tag_level dflt) [''H1'', ''H2'', ''H3'', ''H4'', ''H5'', ''H6''] = [1, 2, 3, 4, 5, 6]
       \<and> (tagName content \<notin> set [''H1'', ''H2'', ''H3'', ''H4'', ''H5'', ''H6''] \<longrightarrow>
            tag_level dflt (tagName content) = dflt)
       \<and> (cfg_levels (priv_settings this) = None \<longrightarrow>
            (\<exists>this1. onPaste html this content = Inr this1
               \<and> priv_data this1 =
                   \<lparr>data_text = JStr (innerHTML content),
                    data_level = tag_level 2 (tagName content)\<rparr>))
       \<and> (\<forall>ls. cfg_levels (priv_settings this) = Some ls \<longrightarrow> 2 \<in> set ls \<longrightarrow>
            (\<exists>i<length ls. \<exists>this1.
                 (\<forall>j<length ls. \<bar>ls ! i - tag_level 2 (tagName content)\<bar>
                                   \<le> \<bar>ls ! j - tag_level 2 (tagName content)\<bar>)
               \<and> (\<forall>j<i. \<bar>ls ! i - tag_level 2 (tagName content)\<bar>
                           < \<bar>ls ! j - tag_level 2 (tagName content)\<bar>)
               \<and> onPaste html this content = Inr this1
               \<and> priv_data this1 =
                   \<lparr>data_text = JStr (innerHTML content),
                    data_level = (if ls ! i = 0 then 2 else ls ! i)\<rparr>))
       \<and> (\<forall>ls. cfg_levels (priv_settings this) = Some ls \<longrightarrow> 2 \<notin> set ls \<longrightarrow>
            onPaste html this content = Inl TypeError)"
proof (intro conjI allI impI)
  show "map (tag_level dflt) [''H1'', ''H2'', ''H3'', ''H4'', ''H5'', ''H6''] = [1, 2, 3, 4, 5, 6]"
    by (simp add: tag_level_def)
next
  assume "tagName content \<notin> set [''H1'', ''H2'', ''H3'', ''H4'', ''H5'', ''H6'']"
  then show "tag_level dflt (tagName content) = dflt"
    by (simp add: tag_level_def)
next
  assume "cfg_levels (priv_settings this) = None"
  from onPaste_unrestricted[OF el this]
  show "\<exists>this1. onPaste html this content = Inr this1
               \<and> priv_data this1 =
                   \<lparr>data_text = JStr (innerHTML content),
                    data_level = tag_level 2 (tagName content)\<rparr>" .
next
  fix ls assume "cfg_levels (priv_settings this) = Some ls" and "2 \<in> set ls"
  from onPaste_restricted[OF el this]
  show "\<exists>i<length ls. \<exists>this1.
                 (\<forall>j<length ls. \<bar>ls ! i - tag_level 2 (tagName content)\<bar>
                                   \<le> \<bar>ls ! j - tag_level 2 (tagName content)\<bar>)
               \<and> (\<forall>j<i. \<bar>ls ! i - tag_level 2 (tagName content)\<bar>
                           < \<bar>ls ! j - tag_level 2 (tagName content)\<bar>)
               \<and> onPaste html this content = Inr this1
               \<and> priv_data this1 =
                   \<lparr>data_text = JStr (innerHTML content),
                    data_level = (if ls ! i = 0 then 2 else ls ! i)\<rparr>" .
next
  fix ls assume "cfg_levels (priv_settings this) = Some ls" and "2 \<notin> set ls"
  from onPaste_unavailable[OF this]
  show "onPaste html this content = Inl TypeError" .
qed

theorem onPaste_nearest_level_witness:
  "(\<exists>this1. onPaste text_html restricted_rendered ((createElement ''H1'')\<lparr>innerHTML := ''Pasted''\<rparr>)
               = Inr this1
      \<and> priv_data this1 = \<lparr>data_text = JStr ''Pasted'', data_level = 2\<rparr>)
   \<and> (\<exists>this1. onPaste text_html hello_rendered ((createElement ''H4'')\<lparr>innerHTML := ''Pasted''\<rparr>)
               = Inr this1
      \<and> priv_data this1 = \<lparr>data_text = JStr ''Pasted'', data_level = 4\<rparr>)"
proof -
  let ?h1 = "(createElement ''H1'')\<lparr>innerHTML := ''Pasted''\<rparr>"
  let ?h4 = "(createElement ''H4'')\<lparr>innerHTML := ''Pasted''\<rparr>"
  have e: "priv_element restricted_rendered = Some hello_element"
    by (simp add: restricted_rendered_def hello_rendered_def)
  have c: "cfg_levels (priv_settings restricted_rendered) = Some [2, 3]"
    by (simp add: restricted_rendered_def restricted_config_def)
  have two: "(2::int) \<in> set [2, 3]" by simp
  have m: "tag_level 2 (tagName ?h1) = 1" by (simp add: tag_level_def createElement_def)
  from onPaste_nearest_level[OF e, of 2 ?h1 text_html] c two
  obtain i this1 where i: "i < length [2, 3 :: int]"
    and le: "\<forall>j<length [2, 3 :: int]. \<bar>[2, 3 :: int] ! i - tag_level 2 (tagName ?h1)\<bar>
                \<le> \<bar>[2, 3 :: int] ! j - tag_level 2 (tagName ?h1)\<bar>"
    and p: "onPaste text_html restricted_rendered ?h1 = Inr this1"
      "priv_data this1 = \<lparr>data_text = JStr (innerHTML ?h1),
                            data_level = (if [2, 3 :: int] ! i = 0 then 2 else [2, 3] ! i)\<rparr>"
    by blast
  from i have "i = 0 \<or> i = 1" by auto
  moreover have "i \<noteq> 1"
  proof
    assume "i = 1"
    with le have "\<bar>[2, 3 :: int] ! 1 - 1\<bar> \<le> \<bar>[2, 3 :: int] ! 0 - 1\<bar>"
      unfolding m by (metis length_Cons zero_less_Suc)
    then show False by simp
  qed
  ultimately have "i = 0" by simp
  with p have a: "\<exists>this1. onPaste text_html restricted_rendered ?h1 = Inr this1
      \<and> priv_data this1 = \<lparr>data_text = JStr ''Pasted'', data_level = 2\<rparr>"
    by simp
  have e4: "priv_element hello_rendered = Some hello_element"
    by (simp add: hello_rendered_def)
  have c4: "cfg_levels (priv_settings hello_rendered) = None"
    by (simp add: hello_rendered_def hello_new_def plain_config_def)
  from onPaste_nearest_level[OF e4, of 2 ?h4 text_html] c4
  have b: "\<exists>this1. onPaste text_html hello_rendered ?h4 = Inr this1
      \<and> priv_data this1 = \<lparr>data_text = JStr ''Pasted'', data_level = 4\<rparr>"
    by (simp add: tag_level_def createElement_def)
  from a b show ?thesis by (rule conjI)
qed

lemma levels_one_three: "levels one_three_config = []"
  by (simp add: levels_def one_three_config_def availableLevels_def)

text \<open>
  With \<^verbatim>\<open>config.levels = [1, 3]\<close> the nearest entry to the number of a pasted \<^verbatim>\<open>H1\<close> is 1,
  yet \<^verbatim>\<open>onPaste\<close> throws and stores nothing.
\<close>

theorem onPaste_counterexample:
  "constructor (JObj [(''level'', JNum (Finite 1))]) one_three_config example_api False
     = Inr one_three_new
   \<and> render text_html one_three_new = Inr (createElement ''DIV'', one_three_rendered)
   \<and> cfg_levels (priv_settings one_three_rendered) = Some [1, 3]
   \<and> reduce (nearer 1) [1, 3] = Inr 1
   \<and> onPaste text_html one_three_rendered ((createElement ''H1'')\<lparr>innerHTML := ''Pasted''\<rparr>)
       = Inl TypeError"
proof -
  have c: "constructor (JObj [(''level'', JNum (Finite 1))]) one_three_config example_api False
     = Inr one_three_new"
    by (simp add: constructor_def bindE_def normalizeData_empty_levels[OF levels_one_three]
        parseInt_integer js_or_def one_three_new_def hello_new_def example_api_def)
  have r: "render text_html one_three_new = Inr (createElement ''DIV'', one_three_rendered)"
    by (simp add: render_def getTag_def bindE_def one_three_rendered_def one_three_new_def
        hello_new_def createPopUp_def set_innerHTML_def text_html_empty createElement_def)
  have s: "cfg_levels (priv_settings one_three_rendered) = Some [1, 3]"
    by (simp add: one_three_rendered_def one_three_new_def one_three_config_def)
  have n: "reduce (nearer 1) [1, 3] = Inr 1" by (simp add: nearer_def)
  have "(2::int) \<notin> set [1, 3]" by simp
  from onPaste_unavailable[OF s this]
  have p: "onPaste text_html one_three_rendered ((createElement ''H1'')\<lparr>innerHTML := ''Pasted''\<rparr>)
       = Inl TypeError" .
  from c r s n p show ?thesis by simp
qed

subsection \<open>Merging\<close>

lemma merge_result:
  assumes avail: "levels (priv_settings this) \<noteq> []" and el: "priv_element this = Some el"
    and other: "get_prop other ''text'' = Inr (JStr a)"
  shows "\<exists>el1 this1. merge html this other = Inr this1
           \<and> priv_settings this1 = priv_settings this
           \<and> priv_data this1 = \<lparr>data_text = JStr (innerHTML el @ a), data_level = 2\<rparr>
           \<and> priv_element this1 = Some el1
           \<and> innerHTML el1 = html (tagName el1) (innerHTML el @ a)
           \<and> parentNode el1 = parentNode el"
proof -
  let ?r = "\<lparr>data_text = JStr (innerHTML el), data_level = 2\<rparr>"
  let ?st = "this\<lparr>priv_data := ?r\<rparr>"
  have g1: "get_data this = Inr (?r, ?st)" by (rule get_data_eq[OF avail el])
  have av: "levels (priv_settings ?st) \<noteq> []" using avail by simp
  have e: "priv_element ?st = Some el" using el by simp
  have g2: "get_data ?st = Inr (?r, ?st)" using get_data_eq[OF av e] by simp
  let ?obj = "[(''text'', JStr (innerHTML el @ a)), (''level'', JNum (Finite 2))]"
  have m: "merge html this other = set_data html ?st (JObj ?obj)"
    by (simp add: merge_def g1 bindE_def other g2)
  from set_data_ok[OF av e, of html ?obj] obtain el1 this1 d where
    s: "set_data html ?st (JObj ?obj) = Inr this1"
    and n: "normalizeData (priv_settings ?st) (JObj ?obj) = Inr d"
    and p: "priv_settings this1 = priv_settings ?st" "priv_data this1 = d"
      "priv_element this1 = Some el1" "parentNode el1 = parentNode el"
    and h: "map_of ?obj ''text'' \<noteq> None \<longrightarrow> map_of ?obj ''text'' \<noteq> Some JUndefined \<longrightarrow>
                innerHTML el1 = html (tagName el1) (ToString (data_text d))"
    by blast
  have d: "d = \<lparr>data_text = JStr (innerHTML el @ a), data_level = 2\<rparr>"
    using n by (auto simp: normalizeData_object[OF avail] js_or_def parseInt_integer)
  show ?thesis using m s p h d by simp
qed

lemma merge_unattached:
  assumes avail: "levels (priv_settings this) \<noteq> []" and el: "priv_element this = Some el"
    and un: "parentNode el = None"
    and other: "get_prop other ''text'' = Inr (JStr a)"
  shows "merge html this other =
           Inr (this\<lparr>priv_data := \<lparr>data_text = JStr (innerHTML el @ a), data_level = 2\<rparr>,
                     priv_element := Some (el\<lparr>innerHTML := html (tagName el) (innerHTML el @ a)\<rparr>)\<rparr>)"
proof -
  let ?r = "\<lparr>data_text = JStr (innerHTML el), data_level = 2\<rparr>"
  let ?st = "this\<lparr>priv_data := ?r\<rparr>"
  have g1: "get_data this = Inr (?r, ?st)" by (rule get_data_eq[OF avail el])
  have av: "levels (priv_settings ?st) \<noteq> []" using avail by simp
  have e: "priv_element ?st = Some el" using el by simp
  have g2: "get_data ?st = Inr (?r, ?st)" using get_data_eq[OF av e] by simp
  let ?obj = "[(''text'', JStr (innerHTML el @ a)), (''level'', JNum (Finite 2))]"
  have m: "merge html this other = set_data html ?st (JObj ?obj)"
    by (simp add: merge_def g1 bindE_def other g2)
  have n: "normalizeData (priv_settings this) (JObj ?obj)
             = Inr \<lparr>data_text = JStr (innerHTML el @ a), data_level = 2\<rparr>"
    by (simp add: normalizeData_object[OF avail] js_or_def parseInt_integer)
  show ?thesis
    unfolding m using el un
    by (simp add: set_data_def n bindE_def rebuild_def set_innerHTML_def js_or_def)
qed

text \<open>
  C7, as the code has it. On a rendered instance with a level available, \<^verbatim>\<open>merge\<close> of a record
  whose text is a string stores the content read from the element followed by that string,
  with the number of the current level as level, and assigns the stored text to the element.
  A second merge starts from what the element then reads back. Merging \<open>a\<close> and then \<open>b\<close>
  stores the same record as merging once a record whose text is the text of \<open>a\<close> followed by
  the text of \<open>b\<close>, provided the element reads the first concatenation back unchanged.
\<close>

theorem merge_concatenates:
  assumes avail: "levels (priv_settings this) \<noteq> []" and el: "priv_element this = Some el"
    and a: "get_prop a ''text'' = Inr (JStr ta)"
    and b: "get_prop b ''text'' = Inr (JStr tb)"
    and ab: "get_prop ab ''text'' = Inr (JStr (ta @ tb))"
  shows "\<exists>l el1 this1 this2 this3.
           currentLevel this = Some l
         \<and> merge html this a = Inr this1
         \<and> priv_data this1 = \<lparr>data_text = JStr (innerHTML el @ ta), data_level = number l\<rparr>
         \<and> priv_element this1 = Some el1
         \<and> innerHTML el1 = html (tagName el1) (innerHTML el @ ta)
         \<and> merge html this1 b = Inr this2
         \<and> priv_data this2 = \<lparr>data_text = JStr (innerHTML el1 @ tb), data_level = number l\<rparr>
         \<and> merge html this ab = Inr this3
         \<and> priv_data this3 = \<lparr>data_text = JStr (innerHTML el @ ta @ tb), data_level = number l\<rparr>
         \<and> (innerHTML el1 = innerHTML el @ ta \<longrightarrow> priv_data this2 = priv_data this3)"
proof -
  have cur: "currentLevel this = Some \<lparr>number = 2, tag = ''H2'', svg = icon\<rparr>"
    using avail by (simp add: currentLevel_eq hd_availableLevels)
  from merge_result[OF avail el a, of html] obtain el1 this1 where
    m1: "merge html this a = Inr this1" "priv_settings this1 = priv_settings this"
      "priv_data this1 = \<lparr>data_text = JStr (innerHTML el @ ta), data_level = 2\<rparr>"
      "priv_element this1 = Some el1" "innerHTML el1 = html (tagName el1) (innerHTML el @ ta)"
    by blast
  have av1: "levels (priv_settings this1) \<noteq> []" using avail m1(2) by simp
  from merge_result[OF av1 m1(4) b, of html] obtain this2 where
    m2: "merge html this1 b = Inr this2"
      "priv_data this2 = \<lparr>data_text = JStr (innerHTML el1 @ tb), data_level = 2\<rparr>"
    by blast
  from merge_result[OF avail el ab, of html] obtain this3 where
    m3: "merge html this ab = Inr this3"
      "priv_data this3 = \<lparr>data_text = JStr (innerHTML el @ ta @ tb), data_level = 2\<rparr>"
    by blast
  show ?thesis
    apply (rule exI[of _ "\<lparr>number = 2, tag = ''H2'', svg = icon\<rparr>"], rule exI[of _ el1])
    apply (rule exI[of _ this1], rule exI[of _ this2], rule exI[of _ this3])
    using cur m1 m2 m3 by simp
qed

lemma text_html_Hello_comma: "text_html t ''Hello, '' = ''Hello, ''"
  by (simp add: text_html_def escape_amp_def)

theorem merge_concatenates_witness:
  "\<exists>this1 this2 this3.
       merge text_html hello_rendered (JObj [(''text'', JStr '', ''), (''level'', JNum (Finite 5))])
         = Inr this1
     \<and> priv_data this1 = \<lparr>data_text = JStr ''Hello, '', data_level = 2\<rparr>
     \<and> merge text_html this1 (JObj [(''text'', JStr ''world'')]) = Inr this2
     \<and> merge text_html hello_rendered (JObj [(''text'', JStr '', world'')]) = Inr this3
     \<and> priv_data this3 = \<lparr>data_text = JStr ''Hello, world'', data_level = 2\<rparr>
     \<and> priv_data this2 = priv_data this3"
proof -
  have h1: "priv_element hello_rendered = Some hello_element"
    by (simp add: hello_rendered_def)
  have a: "get_prop (JObj [(''text'', JStr '', ''), (''level'', JNum (Finite 5))]) ''text'' = Inr (JStr '', '')"
    by simp
  have b: "get_prop (JObj [(''text'', JStr ''world'')]) ''text'' = Inr (JStr ''world'')"
    by simp
  have ab: "get_prop (JObj [(''text'', JStr '', world'')]) ''text'' = Inr (JStr ('', '' @ ''world''))"
    by simp
  have c: "currentLevel hello_rendered = Some \<lparr>number = 2, tag = ''H2'', svg = icon\<rparr>"
    using levels_hello_rendered by (simp add: currentLevel_eq hd_availableLevels)
  have i: "innerHTML hello_element = ''Hello''" by (simp add: hello_element_def)
  from merge_concatenates[OF levels_hello_rendered h1 a b ab, of text_html]
  show ?thesis
    by (auto simp: c i text_html_Hello_comma text_html_def[of _ "''Hello, ''"])
qed

lemma third_constructed:
  "constructor (JObj [(''text'', JStr ''Hello''), (''level'', JNum (Finite 3))])
     plain_config example_api False = Inr third_new"
  by (simp add: constructor_def bindE_def normalizeData_object[OF levels_plain_nonempty]
      parseInt_integer js_or_def third_new_def hello_new_def example_api_def)

lemma third_render: "render text_html third_new = Inr (hello_element, third_rendered)"
proof -
  have "levels (priv_settings third_new) \<noteq> []"
    by (simp add: third_new_def hello_new_def levels_plain_nonempty)
  from deref_currentLevel[OF this] show ?thesis
    by (simp add: render_def getTag_def bindE_def third_rendered_def hello_element_def
        createElement_def set_innerHTML_def js_or_def)
       (simp add: third_new_def hello_new_def example_api_def plain_config_def text_html_Hello)
qed

text \<open>
  An instance that stores level 3 stores level 2 after a merge. Merging \<^verbatim>\<open>" &"\<close> and then
  \<^verbatim>\<open>" x"\<close> into \<^verbatim>\<open>Hello\<close> stores the text \<^verbatim>\<open>Hello &amp; x\<close>, merging \<^verbatim>\<open>" & x"\<close> once stores
  \<^verbatim>\<open>Hello & x\<close>.
\<close>

theorem merge_counterexample:
  "constructor (JObj [(''text'', JStr ''Hello''), (''level'', JNum (Finite 3))])
     plain_config example_api False = Inr third_new
   \<and> render text_html third_new = Inr (hello_element, third_rendered)
   \<and> data_level (priv_data third_rendered) = 3
   \<and> merge text_html third_rendered (JObj [(''text'', JStr ''!'')])
       = Inr (third_rendered
                \<lparr>priv_data := \<lparr>data_text = JStr ''Hello!'', data_level = 2\<rparr>,
                 priv_element := Some (hello_element\<lparr>innerHTML := ''Hello!''\<rparr>)\<rparr>)
   \<and> merge text_html hello_rendered (JObj [(''text'', JStr '' &'')])
       = Inr (hello_rendered
                \<lparr>priv_data := \<lparr>data_text = JStr ''Hello &'', data_level = 2\<rparr>,
                 priv_element := Some (hello_element\<lparr>innerHTML := ''Hello &amp;''\<rparr>)\<rparr>)
   \<and> merge text_html
        (hello_rendered
           \<lparr>priv_data := \<lparr>data_text = JStr ''Hello &'', data_level = 2\<rparr>,
            priv_element := Some (hello_element\<lparr>innerHTML := ''Hello &amp;''\<rparr>)\<rparr>)
        (JObj [(''text'', JStr '' x'')])
       = Inr (hello_rendered
                \<lparr>priv_data := \<lparr>data_text = JStr ''Hello &amp; x'', data_level = 2\<rparr>,
                 priv_element := Some (hello_element\<lparr>innerHTML := ''Hello &amp; x''\<rparr>)\<rparr>)
   \<and> merge text_html hello_rendered (JObj [(''text'', JStr '' & x'')])
       = Inr (hello_rendered
                \<lparr>priv_data := \<lparr>data_text = JStr ''Hello & x'', data_level = 2\<rparr>,
                 priv_element := Some (hello_element\<lparr>innerHTML := ''Hello &amp; x''\<rparr>)\<rparr>)"
proof -
  have av3: "levels (priv_settings third_rendered) \<noteq> []"
    by (simp add: third_rendered_def third_new_def hello_new_def levels_plain_nonempty)
  have e3: "priv_element third_rendered = Some hello_element"
    by (simp add: third_rendered_def)
  have e: "priv_element hello_rendered = Some hello_element"
    by (simp add: hello_rendered_def)
  have un: "parentNode hello_element = None" by (simp add: hello_element_def)
  have l3: "data_level (priv_data third_rendered) = 3"
    by (simp add: third_rendered_def third_new_def)
  have m3: "merge text_html third_rendered (JObj [(''text'', JStr ''!'')])
       = Inr (third_rendered
                \<lparr>priv_data := \<lparr>data_text = JStr ''Hello!'', data_level = 2\<rparr>,
                 priv_element := Some (hello_element\<lparr>innerHTML := ''Hello!''\<rparr>)\<rparr>)"
    by (simp add: merge_unattached[OF av3 e3 un] hello_element_def text_html_def escape_amp_def)
  have ma: "merge text_html hello_rendered (JObj [(''text'', JStr '' &'')])
       = Inr (hello_rendered
                \<lparr>priv_data := \<lparr>data_text = JStr ''Hello &'', data_level = 2\<rparr>,
                 priv_element := Some (hello_element\<lparr>innerHTML := ''Hello &amp;''\<rparr>)\<rparr>)"
    by (simp add: merge_unattached[OF levels_hello_rendered e un] hello_element_def text_html_def
        escape_amp_def)
  let ?A = "hello_rendered
           \<lparr>priv_data := \<lparr>data_text = JStr ''Hello &'', data_level = 2\<rparr>,
            priv_element := Some (hello_element\<lparr>innerHTML := ''Hello &amp;''\<rparr>)\<rparr>"
  have avA: "levels (priv_settings ?A) \<noteq> []" using levels_hello_rendered by simp
  have eA: "priv_element ?A = Some (hello_element\<lparr>innerHTML := ''Hello &amp;''\<rparr>)" by simp
  have unA: "parentNode (hello_element\<lparr>innerHTML := ''Hello &amp;''\<rparr>) = None"
    by (simp add: hello_element_def)
  have mb: "merge text_html ?A (JObj [(''text'', JStr '' x'')])
       = Inr (hello_rendered
                \<lparr>priv_data := \<lparr>data_text = JStr ''Hello &amp; x'', data_level = 2\<rparr>,
                 priv_element := Some (hello_element\<lparr>innerHTML := ''Hello &amp; x''\<rparr>)\<rparr>)"
  proof -
    have x: "get_prop (JObj [(''text'', JStr '' x'')]) ''text'' = Inr (JStr '' x'')" by simp
    show ?thesis
      by (simp only: merge_unattached[OF avA eA unA x])
         (simp add: hello_element_def text_html_def escape_amp_def)
  qed
  have mab: "merge text_html hello_rendered (JObj [(''text'', JStr '' & x'')])
       = Inr (hello_rendered
                \<lparr>priv_data := \<lparr>data_text = JStr ''Hello & x'', data_level = 2\<rparr>,
                 priv_element := Some (hello_element\<lparr>innerHTML := ''Hello &amp; x''\<rparr>)\<rparr>)"
    by (simp add: merge_unattached[OF levels_hello_rendered e un] hello_element_def text_html_def
        escape_amp_def)
  show ?thesis
    by (intro conjI third_constructed third_render l3 m3 ma mb mab)
qed

end
